theory Spec2Isabelle
  imports Main "HOL-Library.Sublist"
begin

section \<open>JavaScript values used by the blog pages\<close>

text \<open>
  The two pages read props and query values that may be missing. A value that may be
  \<^verbatim>\<open>undefined\<close> or \<^verbatim>\<open>null\<close> is a \<open>nullable\<close>; a value typed
  \<^verbatim>\<open>T | T[]\<close> (a query parameter, a tag field) is a \<open>one_or_many\<close>.
  Reading a property of \<^verbatim>\<open>undefined\<close> or \<^verbatim>\<open>null\<close> throws a
  TypeError, which is the only error the two components can raise.
\<close>

datatype js_error = TypeError

datatype 'a nullable = Undefined | Null | Defined 'a

datatype 'a one_or_many = One 'a | Many "'a list"

text \<open>Truthiness of an object or array reference: only the nullish values are falsy.\<close>

definition truthy :: "'a nullable \<Rightarrow> bool" where
  "truthy v = (case v of Defined _ \<Rightarrow> True | _ \<Rightarrow> False)"

text \<open>Truthiness of a string: the empty string is falsy as well.\<close>

definition truthy_str :: "string nullable \<Rightarrow> bool" where
  "truthy_str v = (case v of Defined s \<Rightarrow> s \<noteq> [] | _ \<Rightarrow> False)"

text \<open>Truthiness of a \<^verbatim>\<open>string | string[]\<close>: every array is truthy, also the empty one.\<close>

definition truthy_tag :: "string one_or_many nullable \<Rightarrow> bool" where
  "truthy_tag v =
     (case v of Defined (One s) \<Rightarrow> s \<noteq> [] | Defined (Many _) \<Rightarrow> True | _ \<Rightarrow> False)"

text \<open>\<^verbatim>\<open>v || d\<close> for an object or array reference \<open>v\<close>.\<close>

definition or_else :: "'a nullable \<Rightarrow> 'a \<Rightarrow> 'a" where
  "or_else v d = (case v of Defined x \<Rightarrow> x | _ \<Rightarrow> d)"

text \<open>\<^verbatim>\<open>a || b\<close> for two optional strings.\<close>

definition str_or :: "string nullable \<Rightarrow> string nullable \<Rightarrow> string nullable" where
  "str_or a b = (if truthy_str a then a else b)"

text \<open>\<^verbatim>\<open>v.p\<close> or \<^verbatim>\<open>v.m(...)\<close>: throws on a nullish receiver.\<close>

definition deref :: "'a nullable \<Rightarrow> ('a \<Rightarrow> 'b) \<Rightarrow> js_error + 'b" where
  "deref v f = (case v of Defined x \<Rightarrow> Inr (f x) | _ \<Rightarrow> Inl TypeError)"

text \<open>\<^verbatim>\<open>xs[0]\<close> on an array: \<^verbatim>\<open>undefined\<close> when the array is empty.\<close>

definition index0 :: "'a list \<Rightarrow> 'a nullable" where
  "index0 xs = (case xs of [] \<Rightarrow> Undefined | x # _ \<Rightarrow> Defined x)"

text \<open>\<^verbatim>\<open>xs.includes(x)\<close>.\<close>

definition array_includes :: "'a list \<Rightarrow> 'a \<Rightarrow> bool" where
  "array_includes xs x = (x \<in> set xs)"

text \<open>\<^verbatim>\<open>xs.join(sep)\<close>.\<close>

fun join :: "string \<Rightarrow> string list \<Rightarrow> string" where
  "join sep [] = []"
| "join sep [x] = x"
| "join sep (x # y # ys) = x @ sep @ join sep (y # ys)"

section \<open>Articles\<close>

text \<open>
  The metadata record of one post (\<^verbatim>\<open>MetaWithLink\<close>), with the fields the two pages
  read. The legacy page reads \<^verbatim>\<open>article.tags || []\<close>, so the field may be missing;
  the newer page reads \<^verbatim>\<open>asArray(article.tags)\<close>, so it may be one label or a list.
\<close>

record article =
  link :: string
  title :: string
  description :: string
  thumbnail :: "string nullable"
  image_field :: "string nullable"
  date :: string
  author :: string
  tags :: "string one_or_many nullable"

text \<open>
  Modelled from the spec: \<^verbatim>\<open>lib/as-array\<close> (the helper \<^verbatim>\<open>asArray\<close>) is not among
  the sources. Section 4.3 of the specification, on normalisation, in its words: the input
  may arrive as a single scalar or an already-plural collection; it must be coerced to a
  set of distinct string labels before comparison (empty/undefined coerces to the empty
  set). The callers read the result with \<^verbatim>\<open>length\<close>, \<^verbatim>\<open>some\<close> and
  \<^verbatim>\<open>includes\<close>, so the set is an array here: a list of distinct labels, a
  repeated label of a collection being kept once.
\<close>

definition asArray :: "'a one_or_many nullable \<Rightarrow> 'a list" where
  "asArray v =
     (case v of Defined (One x) \<Rightarrow> [x] | Defined (Many xs) \<Rightarrow> remdups xs | _ \<Rightarrow> [])"

section \<open>The blog page \<^verbatim>\<open>blog.mdx\<close>\<close>

text \<open>
  \<^verbatim>\<open>const tagsFilter = !query.tag ? [] : asArray(query.tag)\<close>: the normalisation of
  the query parameter \<^verbatim>\<open>tag\<close>.
\<close>

definition tagsFilter_of :: "string one_or_many nullable \<Rightarrow> string list" where
  "tagsFilter_of query_tag = (if \<not> truthy_tag query_tag then [] else asArray query_tag)"

text \<open>
  The filter engine (\<open>filterByTags\<close> in the specification) is the statement
  \<^verbatim>\<open>let articles = allBlogs; if (tagsFilter.length > 0) { articles = articles.filter(...) }\<close>
  of the component, with the normalised tag list as its second argument.
\<close>

definition filterByTags :: "article list \<Rightarrow> string list \<Rightarrow> article list" where
  "filterByTags allBlogs tagsFilter =
     (let articles = allBlogs in
      if length tagsFilter > 0
      then filter (\<lambda>article.
             length tagsFilter = 0 \<or>
             list_ex (\<lambda>tag. array_includes tagsFilter tag) (asArray (tags article))) articles
      else articles)"

text \<open>
  What the component hands to presentation: the tags of \<^verbatim>\<open>TagList\<close>, whether the
  newsletter is shown, and the articles of \<^verbatim>\<open>BlogCardList\<close>. The tag extraction
  \<^verbatim>\<open>extractRelevantTags\<close> lives in \<^verbatim>\<open>lib/tags\<close>, outside the sources, and is
  a parameter of the component here.
\<close>

record 'tag blog_view =
  tagList :: "'tag list"
  showNewsletter :: bool
  blogCardList :: "article list"

definition Blog_mdx ::
  "(article list \<Rightarrow> 'tag list) \<Rightarrow> article list \<Rightarrow> string one_or_many nullable \<Rightarrow> 'tag blog_view"
where
  "Blog_mdx extractRelevantTags allBlogs query_tag =
     (let tagsFilter = tagsFilter_of query_tag;
          allTags = extractRelevantTags allBlogs;
          articles = filterByTags allBlogs tagsFilter
      in \<lparr>tagList = allTags,
          showNewsletter = (length tagsFilter = 0),
          blogCardList = articles\<rparr>)"

section \<open>The legacy blog page \<^verbatim>\<open>pages/blog.tsx\<close>\<close>

text \<open>The props of \<^verbatim>\<open>Featured\<close> and of \<^verbatim>\<open>ArticleCard\<close>.\<close>

record featured_props =
  featured_title :: string
  featured_description :: string
  featured_image :: "string nullable"
  featured_link :: string

record 'author card_props =
  card_author :: "'author option"
  card_key :: string
  card_title :: string
  card_description :: string
  card_image :: "string nullable"
  card_link :: string
  card_date :: string
  card_tags :: "string one_or_many"

definition Featured :: "article \<Rightarrow> featured_props" where
  "Featured recentArticle =
     \<lparr>featured_title = title recentArticle,
      featured_description = description recentArticle,
      featured_image = str_or (thumbnail recentArticle) (image_field recentArticle),
      featured_link = link recentArticle\<rparr>"

text \<open>\<^verbatim>\<open>article.tags || []\<close>.\<close>

definition tags_or_empty :: "string one_or_many nullable \<Rightarrow> string one_or_many" where
  "tags_or_empty t = (if truthy_tag t then or_else t (Many []) else Many [])"

text \<open>
  The table \<^verbatim>\<open>authors\<close> (\<^verbatim>\<open>ui/blog/authors\<close>) is outside the sources: a parameter,
  whose lookup finds an author or nothing.
\<close>

definition ArticleCard :: "(string \<Rightarrow> 'author option) \<Rightarrow> article \<Rightarrow> 'author card_props" where
  "ArticleCard authors article =
     \<lparr>card_author = authors (author article),
      card_key = link article,
      card_title = title article,
      card_description = description article,
      card_image = str_or (thumbnail article) (image_field article),
      card_link = link article,
      card_date = date article,
      card_tags = tags_or_empty (tags article)\<rparr>"

text \<open>\<^verbatim>\<open>const hasTagFilter = tagFilter && tagFilter.length > 0\<close>, read as a condition.\<close>

definition hasTagFilter :: "string list nullable \<Rightarrow> js_error + bool" where
  "hasTagFilter tagFilter =
     (if truthy tagFilter then deref tagFilter (\<lambda>t. length t > 0) else Inr False)"

text \<open>\<^verbatim>\<open>const recentArticle = (articles || [])[0]\<close>.\<close>

definition recentArticle :: "article list nullable \<Rightarrow> article nullable" where
  "recentArticle articles = index0 (or_else articles [])"

text \<open>
  The featured selection (\<open>selectFeatured\<close> in the specification) is the article the
  component renders in its featured block: \<^verbatim>\<open>recentArticle && !hasTagFilter && ...\<close>.
\<close>

definition selectFeatured :: "article list nullable \<Rightarrow> bool \<Rightarrow> article nullable" where
  "selectFeatured articles isFiltered =
     (if truthy (recentArticle articles) \<and> \<not> isFiltered then recentArticle articles
      else Undefined)"

text \<open>
  The rendered page: the filter note of the hero, the featured block, the newsletter and
  the cards of \<^verbatim>\<open>AllArticles\<close>.
\<close>

record 'author page =
  hero_filter :: "string option"
  featured_block :: "featured_props option"
  newsletter_block :: bool
  all_articles :: "'author card_props list"

definition Blog ::
  "(string \<Rightarrow> 'author option) \<Rightarrow> article list nullable \<Rightarrow> string list nullable
     \<Rightarrow> js_error + 'author page"
where
  "Blog authors articles tagFilter =
     (case hasTagFilter tagFilter of
        Inl e \<Rightarrow> Inl e
      | Inr has \<Rightarrow>
          (case (if has
                 then deref tagFilter (\<lambda>t. Some (''(filter by: '' @ join '', '' t @ '')''))
                 else Inr None) of
             Inl e \<Rightarrow> Inl e
           | Inr hero \<Rightarrow>
               (case (if truthy (recentArticle articles) \<and> \<not> has
                      then deref (recentArticle articles) (\<lambda>r. Some (Featured r))
                      else Inr None) of
                  Inl e \<Rightarrow> Inl e
                | Inr feat \<Rightarrow>
                    Inr \<lparr>hero_filter = hero,
                         featured_block = feat,
                         newsletter_block = (\<not> has),
                         all_articles = map (ArticleCard authors) (or_else articles [])\<rparr>)))"

section \<open>Tag summary and view model of the specification\<close>

record tag_summary_entry =
  tag :: string
  count :: nat

text \<open>
  Modelled from the spec: \<^verbatim>\<open>lib/tags\<close> (\<^verbatim>\<open>extractRelevantTags\<close>, the
  specification's \<open>extractTagSummary\<close>) is not among the sources. Section 4.2: for each
  distinct tag label across all articles, the number of articles referencing it; the order
  is left open there, and is the order of \<open>remdups\<close> on the labels in article order here.
\<close>

definition extractTagSummary :: "article list \<Rightarrow> tag_summary_entry list" where
  "extractTagSummary articles =
     map (\<lambda>t. \<lparr>tag = t,
               count = length (filter (\<lambda>a. array_includes (asArray (tags a)) t) articles)\<rparr>)
       (remdups (concat (map (\<lambda>a. asArray (tags a)) articles)))"

record view_model =
  orderedArticles :: "article list"
  featured :: "article nullable"
  tagSummary :: "tag_summary_entry list"
  isFiltered :: bool

text \<open>
  Modelled from the spec: no function of the sources assembles the view model; the newer
  page computes the filtered list and the tag summary, the legacy page the featured
  article. Section 4.5 gives the five steps, taken here over the definitions above.
\<close>

definition buildBlogViewModel :: "article list \<Rightarrow> string one_or_many nullable \<Rightarrow> view_model" where
  "buildBlogViewModel articles requestedTags =
     (let requested = tagsFilter_of requestedTags;
          filtered_flag = (length requested > 0);
          filtered = filterByTags articles requested;
          summary = extractTagSummary articles;
          feat = selectFeatured (Defined articles) filtered_flag
      in \<lparr>orderedArticles = filtered,
          featured = feat,
          tagSummary = summary,
          isFiltered = filtered_flag\<rparr>)"

section \<open>Example articles\<close>

text \<open>
  An article with a link and a tag field and nothing else, for the scenarios of section 8
  of the specification.
\<close>

definition example_article :: "string \<Rightarrow> string one_or_many nullable \<Rightarrow> article" where
  "example_article l ts =
     \<lparr>link = l, title = [], description = [], thumbnail = Undefined,
      image_field = Undefined, date = [], author = [], tags = ts\<rparr>"

section \<open>Basic facts\<close>

text \<open>The filter, with the guard of the \<^verbatim>\<open>if\<close> and the callback merged.\<close>

lemma filterByTags_filter:
  "filterByTags A T =
     (if T = [] then A
      else filter (\<lambda>a. \<exists>t \<in> set (asArray (tags a)). t \<in> set T) A)"
  by (simp add: filterByTags_def array_includes_def list_ex_iff)


text \<open>The guard \<^verbatim>\<open>tagFilter &&\<close> keeps \<^verbatim>\<open>tagFilter.length\<close> from throwing.\<close>

lemma hasTagFilter_Inr: "hasTagFilter tf = Inr (or_else tf [] \<noteq> [])"
  by (cases tf) (simp_all add: hasTagFilter_def truthy_def deref_def or_else_def)

lemma selectFeatured_cases:
  "selectFeatured articles f =
     (case or_else articles [] of
        [] \<Rightarrow> Undefined
      | a # _ \<Rightarrow> if f then Undefined else Defined a)"
  by (simp add: selectFeatured_def recentArticle_def index0_def truthy_def split: list.split)

text \<open>
  The legacy page never throws: every property access of the component stands behind a
  guard. Its featured block shows the article that \<open>selectFeatured\<close> picks.
\<close>

lemma Blog_Inr:
  "Blog authors articles tf =
     Inr \<lparr>hero_filter =
            (if or_else tf [] \<noteq> []
             then Some (''(filter by: '' @ join '', '' (or_else tf []) @ '')'') else None),
          featured_block =
            (case selectFeatured articles (or_else tf [] \<noteq> []) of
               Defined r \<Rightarrow> Some (Featured r) | _ \<Rightarrow> None),
          newsletter_block = (or_else tf [] = []),
          all_articles = map (ArticleCard authors) (or_else articles [])\<rparr>"
proof -
  have hero:
    "(if or_else tf [] \<noteq> []
      then deref tf (\<lambda>t. Some (''(filter by: '' @ join '', '' t @ '')''))
      else Inr None) =
     Inr (if or_else tf [] \<noteq> []
          then Some (''(filter by: '' @ join '', '' (or_else tf []) @ '')'') else None)"
    by (cases tf) (simp_all add: deref_def or_else_def)
  have feat:
    "(if truthy (recentArticle articles) \<and> \<not> f
      then deref (recentArticle articles) (\<lambda>r. Some (Featured r))
      else Inr None) =
     Inr (case selectFeatured articles f of Defined r \<Rightarrow> Some (Featured r) | _ \<Rightarrow> None)"
    for f
    by (cases "recentArticle articles") (simp_all add: selectFeatured_def truthy_def deref_def)
  show ?thesis
    unfolding Blog_def hasTagFilter_Inr by (simp only: hero feat sum.case not_not)
qed

section \<open>The scenarios of the specification\<close>

text \<open>
  Order preservation (section 8): the input \<open>[a1, a3, a2]\<close>, sorted by date, filtered by a
  tag that \<open>a3\<close> and \<open>a2\<close> carry, gives \<open>[a3, a2]\<close>.
\<close>

lemma order_preservation_scenario:
  "filterByTags
     [example_article ''a1'' (Defined (Many [''react''])),
      example_article ''a3'' (Defined (Many [''cpp'', ''webflow''])),
      example_article ''a2'' (Defined (One ''webflow''))]
     [''webflow''] =
   [example_article ''a3'' (Defined (Many [''cpp'', ''webflow''])),
    example_article ''a2'' (Defined (One ''webflow''))]"
  by (simp add: filterByTags_filter example_article_def asArray_def)

text \<open>The end-to-end scenario (section 8) on the view model.\<close>

lemma end_to_end_scenario:
  "buildBlogViewModel
     [example_article ''p1'' (Defined (Many [''react''])),
      example_article ''p2'' (Defined (Many [''webflow'']))]
     (Defined (Many [''webflow''])) =
   \<lparr>orderedArticles = [example_article ''p2'' (Defined (Many [''webflow'']))],
    featured = Undefined,
    tagSummary = [\<lparr>tag = ''react'', count = 1\<rparr>, \<lparr>tag = ''webflow'', count = 1\<rparr>],
    isFiltered = True\<rparr>"
  by (simp add: buildBlogViewModel_def tagsFilter_of_def truthy_tag_def asArray_def
      filterByTags_filter extractTagSummary_def array_includes_def selectFeatured_cases
      or_else_def example_article_def Let_def)

section \<open>The filter engine\<close>

text \<open>
  C1. For every article sequence \<open>A\<close> and every non-empty list \<open>T\<close> of requested tags,
  \<open>filterByTags A T\<close> keeps exactly the articles of \<open>A\<close> that carry at least one tag of
  \<open>T\<close> (any-match, not all-match), each as often and where it stands in \<open>A\<close>.
\<close>

theorem filterByTags_any_match:
  assumes "T \<noteq> []"
  shows "filterByTags A T = filter (\<lambda>a. \<exists>t \<in> set (asArray (tags a)). t \<in> set T) A"
  using assms by (simp add: filterByTags_filter)

theorem filterByTags_any_match_witness:
  "[''react''] \<noteq> [] \<and>
   filterByTags
     [example_article ''p1'' (Defined (Many [''react'', ''webflow''])),
      example_article ''p2'' (Defined (Many [''cpp'']))]
     [''react''] =
   [example_article ''p1'' (Defined (Many [''react'', ''webflow'']))]"
  using filterByTags_any_match
    [of "[''react'']"
        "[example_article ''p1'' (Defined (Many [''react'', ''webflow''])),
          example_article ''p2'' (Defined (Many [''cpp'']))]"]
  by (simp add: example_article_def asArray_def)

text \<open>
  C2. Filtering with no requested tag is the identity: \<open>filterByTags A []\<close> is \<open>A\<close>, same
  members in the same order; so the page of a request without the query parameter lists
  every article.
\<close>

theorem filterByTags_empty_identity:
  "filterByTags A [] = A \<and> blogCardList (Blog_mdx ext A Undefined) = A"
  by (simp add: filterByTags_def Blog_mdx_def tagsFilter_of_def truthy_tag_def)

text \<open>
  C3. The articles of \<open>filterByTags A T\<close> stand in the order they have in \<open>A\<close>: the
  result is a subsequence of \<open>A\<close>, never a re-sorted list.
\<close>

theorem filterByTags_preserves_order:
  "subseq (filterByTags A T) A"
  by (simp add: filterByTags_filter)

text \<open>
  C9. Requested tags that no article carries are no error: for a non-empty \<open>T\<close> that
  shares no label with any article of \<open>A\<close>, the result is the empty list.
\<close>

theorem filterByTags_unknown_tags_empty:
  assumes "T \<noteq> []"
    and "\<forall>a \<in> set A. set (asArray (tags a)) \<inter> set T = {}"
  shows "filterByTags A T = []"
  using assms by (simp add: filterByTags_filter filter_empty_conv disjoint_iff)

theorem filterByTags_unknown_tags_empty_witness:
  "[''rust''] \<noteq> [] \<and>
   set (asArray (Defined (Many [''react'', ''webflow'']))) \<inter> set [''rust''] = {} \<and>
   set (asArray (Undefined :: string one_or_many nullable)) \<inter> set [''rust''] = {} \<and>
   filterByTags
     [example_article ''p1'' (Defined (Many [''react'', ''webflow''])),
      example_article ''p2'' Undefined]
     [''rust''] = []"
  using filterByTags_unknown_tags_empty
    [of "[''rust'']"
        "[example_article ''p1'' (Defined (Many [''react'', ''webflow''])),
          example_article ''p2'' Undefined]"]
  by (simp add: example_article_def asArray_def)

section \<open>The legacy page\<close>

text \<open>
  C4. \<open>selectFeatured A filtered\<close> is nothing whenever the flag \<open>filtered\<close> holds or \<open>A\<close>
  is empty, and the first element of \<open>A\<close> otherwise.
\<close>

theorem selectFeatured_first_or_nothing:
  "(filtered \<or> A = [] \<longrightarrow> selectFeatured (Defined A) filtered = Undefined) \<and>
   (\<not> filtered \<and> A \<noteq> [] \<longrightarrow> selectFeatured (Defined A) filtered = Defined (hd A))"
  by (cases A) (simp_all add: selectFeatured_cases or_else_def)

theorem selectFeatured_first_or_nothing_witness:
  "selectFeatured
     (Defined [example_article ''a1'' Undefined, example_article ''a2'' Undefined]) True =
     Undefined \<and>
   selectFeatured (Defined []) False = Undefined \<and>
   selectFeatured
     (Defined [example_article ''a1'' Undefined, example_article ''a2'' Undefined]) False =
     Defined (example_article ''a1'' Undefined)"
  using
    selectFeatured_first_or_nothing
      [of True "[example_article ''a1'' Undefined, example_article ''a2'' Undefined]"]
    selectFeatured_first_or_nothing [of False "[]"]
    selectFeatured_first_or_nothing
      [of False "[example_article ''a1'' Undefined, example_article ''a2'' Undefined]"]
  by simp

text \<open>
  C5. The legacy page renders one card per article of its input, in the input's order,
  whatever \<open>tagFilter\<close> is: an active tag filter removes the featured block and the
  newsletter, and no article.
\<close>

theorem legacy_page_lists_all_articles:
  "\<exists>p. Blog authors articles tagFilter = Inr p \<and>
     all_articles p = map (ArticleCard authors) (or_else articles []) \<and>
     map card_link (all_articles p) = map link (or_else articles []) \<and>
     (hasTagFilter tagFilter = Inr True \<longrightarrow>
        featured_block p = None \<and> \<not> newsletter_block p)"
  by (simp add: Blog_Inr hasTagFilter_Inr selectFeatured_cases ArticleCard_def comp_def
      split: list.split)

theorem legacy_page_lists_all_articles_witness:
  "hasTagFilter (Defined [''cpp'']) = Inr True \<and>
   Blog (\<lambda>_. None :: string option)
     (Defined [example_article ''p1'' (Defined (Many [''react''])),
               example_article ''p2'' (Defined (One ''webflow''))])
     (Defined [''cpp'']) =
   Inr \<lparr>hero_filter = Some ''(filter by: cpp)'',
        featured_block = None,
        newsletter_block = False,
        all_articles =
          [ArticleCard (\<lambda>_. None) (example_article ''p1'' (Defined (Many [''react'']))),
           ArticleCard (\<lambda>_. None) (example_article ''p2'' (Defined (One ''webflow'')))]\<rparr>"
  using legacy_page_lists_all_articles
    [of "\<lambda>_. None :: string option"
        "Defined [example_article ''p1'' (Defined (Many [''react''])),
                  example_article ''p2'' (Defined (One ''webflow''))]"
        "Defined [''cpp'']"]
  by (auto simp add: hasTagFilter_def truthy_def deref_def or_else_def Blog_def
      recentArticle_def index0_def)

text \<open>
  C10. The legacy page degrades safely: with the prop \<open>articles\<close> undefined or null it
  renders, without throwing, an empty list and no featured article; and an article whose
  field \<open>tags\<close> is undefined gets a card with an empty tag list.
\<close>

theorem legacy_page_degrades_safely:
  "(articles = Undefined \<or> articles = Null \<longrightarrow>
      (\<exists>p. Blog authors articles tagFilter = Inr p \<and>
           all_articles p = [] \<and> featured_block p = None)) \<and>
   (tags a = Undefined \<longrightarrow> card_tags (ArticleCard authors a) = Many [])"
  by (auto simp add: Blog_Inr selectFeatured_cases or_else_def ArticleCard_def
      tags_or_empty_def truthy_tag_def)

theorem legacy_page_degrades_safely_witness:
  "Blog (\<lambda>_. None :: string option) Undefined Undefined =
     Inr \<lparr>hero_filter = None, featured_block = None, newsletter_block = True,
          all_articles = []\<rparr> \<and>
   Blog (\<lambda>_. None :: string option) Null (Defined [''cpp'']) =
     Inr \<lparr>hero_filter = Some ''(filter by: cpp)'', featured_block = None,
          newsletter_block = False, all_articles = []\<rparr> \<and>
   tags (example_article ''p1'' Undefined) = Undefined \<and>
   card_tags (ArticleCard (\<lambda>_. None :: string option) (example_article ''p1'' Undefined)) =
     Many []"
  using
    legacy_page_degrades_safely
      [of Undefined "\<lambda>_. None :: string option" Undefined "example_article ''p1'' Undefined"]
    legacy_page_degrades_safely
      [of Null "\<lambda>_. None :: string option" "Defined [''cpp'']" "example_article ''p1'' Undefined"]
  by (auto simp add: hasTagFilter_def truthy_def deref_def or_else_def Blog_def
      recentArticle_def index0_def example_article_def)

section \<open>Normalisation, tag summary and view model\<close>




text \<open>
  C7. The tag summary is computed from the full article list: whatever the extraction
  function and whatever the requested tags, the page hands \<open>TagList\<close> the extraction of
  all articles, the same as with no filter at all.
\<close>

theorem tag_summary_of_unfiltered_articles:
  "tagList (Blog_mdx ext A q) = ext A \<and>
   tagList (Blog_mdx ext A q) = tagList (Blog_mdx ext A Undefined)"
  by (simp add: Blog_mdx_def Let_def)

text \<open>
  C8. The view model of the empty repository: \<open>buildBlogViewModel [] []\<close> has no
  articles, no featured article, an empty tag summary and \<open>isFiltered\<close> false. The pages
  behind it do the same and raise nothing: the newer page lists no card, the legacy page
  renders without a featured block, and on any article list the legacy page returns a
  page.
\<close>

theorem buildBlogViewModel_empty:
  "buildBlogViewModel [] (Defined (Many [])) =
     \<lparr>orderedArticles = [], featured = Undefined, tagSummary = [], isFiltered = False\<rparr> \<and>
   blogCardList (Blog_mdx ext [] q) = [] \<and>
   Blog authors (Defined []) (Defined []) =
     Inr \<lparr>hero_filter = None, featured_block = None, newsletter_block = True,
          all_articles = []\<rparr> \<and>
   (\<exists>p. Blog authors (Defined A) tf = Inr p)"
  by (simp add: buildBlogViewModel_def tagsFilter_of_def truthy_tag_def asArray_def
      filterByTags_filter extractTagSummary_def selectFeatured_cases or_else_def Blog_mdx_def
      Blog_Inr Let_def)

end
